theory Spec2Isabelle
  imports Main "HOL-Library.Word"
begin

section \<open>The C declarations of lovetrack\<close>

text \<open>
  The repository is two C headers, \<^verbatim>\<open>lovetrack_lib.h\<close> (polling) and
  \<^verbatim>\<open>trackpad_lib.h\<close> (callback). Neither holds a statement: the program text is a
  sequence of declarations between an include guard. The embedding therefore is the
  declarations themselves, item by item in source order, with the types written as C
  types and the \<^verbatim>\<open>Returns ...\<close> sentence of each comment kept beside the
  declaration it documents.
\<close>

subsection \<open>Types\<close>

text \<open>
  The C types that occur in the headers: \<^verbatim>\<open>void\<close>, \<^verbatim>\<open>int\<close>, \<^verbatim>\<open>float\<close>, a
  \<^verbatim>\<open>const\<close> qualifier, a pointer, a typedef name, and a function type (return type
  and named parameters), which occurs under the pointer of \<^verbatim>\<open>TrackpadCallback\<close>.
\<close>

datatype ctype =
    C_void
  | C_int
  | C_float
  | C_const ctype
  | C_ptr ctype
  | C_named string
  | C_fun ctype "(string \<times> ctype) list"

text \<open>
  What the comment above a function declaration says about the returned value:
  \<^verbatim>\<open>Returns 0 on success, -1 on failure.\<close> is \<open>Status_code 0 (-1)\<close>,
  \<^verbatim>\<open>Returns the number of fingers currently on the trackpad.\<close> is
  \<open>Finger_count\<close>, and a comment with no such sentence is \<open>No_return_doc\<close>.
\<close>

datatype returns_doc =
    Status_code int int
  | Finger_count
  | No_return_doc

text \<open>
  A function declarator: name, return type, the parameter list as written (empty for
  \<^verbatim>\<open>()\<close>), the text of the body when the declarator is followed by a compound
  statement (\<open>None\<close> when it is followed by \<^verbatim>\<open>;\<close>), and the documented return.
\<close>

record fun_decl =
  fn_name :: string
  fn_ret :: ctype
  fn_params :: "(string \<times> ctype) list"
  fn_body :: "string option"
  fn_returns :: returns_doc

text \<open>
  A top-level item of a header: \<^verbatim>\<open>typedef struct { ... } N;\<close> with its members in
  order, any other \<^verbatim>\<open>typedef\<close>, or a function.
\<close>

datatype item =
    Struct_typedef string "(string \<times> ctype) list"
  | Typedef string ctype
  | Function fun_decl

text \<open>A header: the macro of its \<^verbatim>\<open>#ifndef\<close>/\<^verbatim>\<open>#define\<close> guard and its items.\<close>

record header =
  guard :: string
  items :: "item list"

subsection \<open>\<^verbatim>\<open>lovetrack_lib.h\<close>: the polling variant\<close>

definition lovetrack_lib_TrackpadFinger :: "(string \<times> ctype) list" where
  "lovetrack_lib_TrackpadFinger =
     [(''id'', C_int),
      (''x'', C_float), (''y'', C_float),
      (''vx'', C_float), (''vy'', C_float),
      (''angle'', C_float),
      (''major_axis'', C_float), (''minor_axis'', C_float),
      (''size'', C_float),
      (''state'', C_int)]"

definition lovetrack_lib_trackpad_start :: fun_decl where
  "lovetrack_lib_trackpad_start =
     \<lparr>fn_name = ''trackpad_start'', fn_ret = C_int, fn_params = [],
      fn_body = None, fn_returns = Status_code 0 (- 1)\<rparr>"

definition lovetrack_lib_trackpad_poll :: fun_decl where
  "lovetrack_lib_trackpad_poll =
     \<lparr>fn_name = ''trackpad_poll'', fn_ret = C_int,
      fn_params = [(''fingers'', C_ptr (C_named ''TrackpadFinger'')), (''max_fingers'', C_int)],
      fn_body = None, fn_returns = Finger_count\<rparr>"

definition lovetrack_lib_trackpad_reset :: fun_decl where
  "lovetrack_lib_trackpad_reset =
     \<lparr>fn_name = ''trackpad_reset'', fn_ret = C_void,
      fn_params = [(''fingers'', C_ptr (C_named ''TrackpadFinger'')), (''max_fingers'', C_int)],
      fn_body = None, fn_returns = No_return_doc\<rparr>"

definition lovetrack_lib_trackpad_stop :: fun_decl where
  "lovetrack_lib_trackpad_stop =
     \<lparr>fn_name = ''trackpad_stop'', fn_ret = C_void, fn_params = [],
      fn_body = None, fn_returns = No_return_doc\<rparr>"

definition lovetrack_lib_h :: header where
  "lovetrack_lib_h =
     \<lparr>guard = ''lovetrack_lib_h'',
      items =
        [Struct_typedef ''TrackpadFinger'' lovetrack_lib_TrackpadFinger,
         Function lovetrack_lib_trackpad_start,
         Function lovetrack_lib_trackpad_poll,
         Function lovetrack_lib_trackpad_reset,
         Function lovetrack_lib_trackpad_stop]\<rparr>"

subsection \<open>\<^verbatim>\<open>trackpad_lib.h\<close>: the callback variant\<close>

definition trackpad_lib_TrackpadFinger :: "(string \<times> ctype) list" where
  "trackpad_lib_TrackpadFinger =
     [(''id'', C_int),
      (''x'', C_float), (''y'', C_float),
      (''vx'', C_float), (''vy'', C_float),
      (''angle'', C_float),
      (''major_axis'', C_float), (''minor_axis'', C_float),
      (''size'', C_float),
      (''state'', C_int)]"

text \<open>\<^verbatim>\<open>typedef void ( *TrackpadCallback)(int nFingers, const TrackpadFinger* fingers);\<close>\<close>

definition TrackpadCallback :: ctype where
  "TrackpadCallback =
     C_ptr (C_fun C_void
       [(''nFingers'', C_int),
        (''fingers'', C_ptr (C_const (C_named ''TrackpadFinger'')))])"

definition trackpad_lib_trackpad_start :: fun_decl where
  "trackpad_lib_trackpad_start =
     \<lparr>fn_name = ''trackpad_start'', fn_ret = C_void,
      fn_params = [(''callback'', C_named ''TrackpadCallback'')],
      fn_body = None, fn_returns = No_return_doc\<rparr>"

definition trackpad_lib_trackpad_stop :: fun_decl where
  "trackpad_lib_trackpad_stop =
     \<lparr>fn_name = ''trackpad_stop'', fn_ret = C_void, fn_params = [],
      fn_body = None, fn_returns = No_return_doc\<rparr>"

definition trackpad_lib_h :: header where
  "trackpad_lib_h =
     \<lparr>guard = ''trackpad_lib_h'',
      items =
        [Struct_typedef ''TrackpadFinger'' trackpad_lib_TrackpadFinger,
         Typedef ''TrackpadCallback'' TrackpadCallback,
         Function trackpad_lib_trackpad_start,
         Function trackpad_lib_trackpad_stop]\<rparr>"

subsection \<open>Reading a header\<close>

fun functions_of :: "item list \<Rightarrow> fun_decl list" where
  "functions_of [] = []"
| "functions_of (Function d # is) = d # functions_of is"
| "functions_of (_ # is) = functions_of is"

fun structs_of :: "item list \<Rightarrow> (string \<times> (string \<times> ctype) list) list" where
  "structs_of [] = []"
| "structs_of (Struct_typedef n ms # is) = (n, ms) # structs_of is"
| "structs_of (_ # is) = structs_of is"

fun typedefs_of :: "item list \<Rightarrow> (string \<times> ctype) list" where
  "typedefs_of [] = []"
| "typedefs_of (Typedef n t # is) = (n, t) # typedefs_of is"
| "typedefs_of (_ # is) = typedefs_of is"

definition operations :: "header \<Rightarrow> (string \<times> fun_decl) list" where
  "operations h = map (Pair (guard h)) (functions_of (items h))"

definition all_operations :: "(string \<times> fun_decl) list" where
  "all_operations = operations lovetrack_lib_h @ operations trackpad_lib_h"

definition operations_named :: "string \<Rightarrow> (string \<times> fun_decl) list" where
  "operations_named n = filter (\<lambda>hd. fn_name (snd hd) = n) all_operations"

text \<open>
  An operation has an error signal when its comment documents a returned value that
  stands for failure.
\<close>

fun has_error_signal :: "fun_decl \<Rightarrow> bool" where
  "has_error_signal d = (case fn_returns d of Status_code _ _ \<Rightarrow> True | _ \<Rightarrow> False)"

text \<open>
  All operations except \<^verbatim>\<open>trackpad_start\<close> of the polling header.
\<close>

definition other_operations :: "(string \<times> fun_decl) list" where
  "other_operations =
     filter (\<lambda>hd. hd \<noteq> (guard lovetrack_lib_h, lovetrack_lib_trackpad_start)) all_operations"

subsection \<open>Pointers and qualifiers\<close>

text \<open>
  The type an lvalue has after dereferencing a pointer, and C's rule for assignment:
  the left operand must be a modifiable lvalue, and an lvalue of \<^verbatim>\<open>const\<close>-qualified
  type (or of \<^verbatim>\<open>void\<close> or function type) is not one.
\<close>

fun deref :: "ctype \<Rightarrow> ctype option" where
  "deref (C_ptr t) = Some t"
| "deref _ = None"

fun modifiable_lvalue :: "ctype \<Rightarrow> bool" where
  "modifiable_lvalue (C_const _) = False"
| "modifiable_lvalue C_void = False"
| "modifiable_lvalue (C_fun _ _) = False"
| "modifiable_lvalue _ = True"

text \<open>The parameters of a pointer-to-function type.\<close>

fun callback_params :: "ctype \<Rightarrow> (string \<times> ctype) list" where
  "callback_params (C_ptr (C_fun _ ps)) = ps"
| "callback_params _ = []"

text \<open>The type under the pointers and qualifiers of a type.\<close>

fun base_type :: "ctype \<Rightarrow> ctype" where
  "base_type (C_ptr t) = base_type t"
| "base_type (C_const t) = base_type t"
| "base_type t = t"

fun is_pointer :: "ctype \<Rightarrow> bool" where
  "is_pointer (C_ptr _) = True"
| "is_pointer (C_const t) = is_pointer t"
| "is_pointer _ = False"

fun is_pointer_to_pointer :: "ctype \<Rightarrow> bool" where
  "is_pointer_to_pointer (C_ptr t) = is_pointer t"
| "is_pointer_to_pointer (C_const t) = is_pointer_to_pointer t"
| "is_pointer_to_pointer _ = False"

text \<open>An operation touches finger data when a parameter is built on \<^verbatim>\<open>TrackpadFinger\<close>.\<close>

definition touches_fingers :: "fun_decl \<Rightarrow> bool" where
  "touches_fingers d =
     list_ex (\<lambda>p. base_type (snd p) = C_named ''TrackpadFinger'') (fn_params d)"

text \<open>
  The ways a C function can hand a buffer of its own to its caller: a pointer as the
  returned value, or a pointer stored through a pointer-to-pointer parameter.
\<close>

definition hands_out_buffer :: "fun_decl \<Rightarrow> bool" where
  "hands_out_buffer d =
     (is_pointer (fn_ret d) \<or> list_ex (\<lambda>p. is_pointer_to_pointer (snd p)) (fn_params d))"

subsection \<open>Translation units\<close>

text \<open>
  Including headers one after the other: a header whose guard macro is already defined
  contributes nothing, otherwise it defines the macro and contributes its items.
\<close>

fun include_headers :: "string list \<Rightarrow> header list \<Rightarrow> item list" where
  "include_headers defined [] = []"
| "include_headers defined (h # hs) =
     (if guard h \<in> set defined then include_headers defined hs
      else items h @ include_headers (guard h # defined) hs)"

text \<open>
  Two declarations of one function are compatible only when the return types are the
  same and, where both list parameters, the parameter types agree. An empty list
  \<^verbatim>\<open>()\<close> is taken as the permissive reading (parameters unspecified), under which it
  agrees with any list.
\<close>

definition compatible :: "fun_decl \<Rightarrow> fun_decl \<Rightarrow> bool" where
  "compatible d e =
     (fn_ret d = fn_ret e \<and>
      (fn_params d = [] \<or> fn_params e = [] \<or> map snd (fn_params d) = map snd (fn_params e)))"

text \<open>The pairs of declarations of a unit that name the same function incompatibly.\<close>

fun conflicts :: "fun_decl list \<Rightarrow> (fun_decl \<times> fun_decl) list" where
  "conflicts [] = []"
| "conflicts (d # ds) =
     map (Pair d) (filter (\<lambda>e. fn_name e = fn_name d \<and> \<not> compatible d e) ds) @ conflicts ds"

section \<open>The operations behind the polling declarations\<close>

subsection \<open>Touch records as values\<close>

text \<open>
  A value of \<^verbatim>\<open>TrackpadFinger\<close>. The members keep their names behind the prefix
  \<open>tf_\<close> (\<open>id\<close> and \<open>size\<close> are constants of HOL). A C \<^verbatim>\<open>int\<close> is a 32-bit
  word read with \<open>sint\<close>; a \<^verbatim>\<open>float\<close> is kept as its 32-bit pattern, since no
  declared operation computes with one: records are only handed over.
\<close>

type_synonym c_int = "32 word"
type_synonym c_float = "32 word"

record TrackpadFinger =
  tf_id :: c_int
  tf_x :: c_float
  tf_y :: c_float
  tf_vx :: c_float
  tf_vy :: c_float
  tf_angle :: c_float
  tf_major_axis :: c_float
  tf_minor_axis :: c_float
  tf_size :: c_float
  tf_state :: c_int

text \<open>A touch record with the given id and every other member zero, for concrete inputs.\<close>

definition sample_finger :: "c_int \<Rightarrow> TrackpadFinger" where
  "sample_finger i =
     \<lparr>tf_id = i, tf_x = 0, tf_y = 0, tf_vx = 0, tf_vy = 0, tf_angle = 0,
      tf_major_axis = 0, tf_minor_axis = 0, tf_size = 0, tf_state = 0\<rparr>"

subsection \<open>\<^verbatim>\<open>trackpad_start\<close> of the polling variant\<close>

text \<open>
  Modelled from the spec: the body of \<^verbatim>\<open>int trackpad_start()\<close> is missing (the
  header only declares it). The spec: "\<^verbatim>\<open>start\<close> in the polling variant returns 0 for
  success and -1 for failure, with no further taxonomy". The argument \<open>started\<close> says
  whether the native listening service could be started.
\<close>

definition trackpad_start :: "bool \<Rightarrow> c_int" where
  "trackpad_start started = (if started then 0 else - 1)"

subsection \<open>\<^verbatim>\<open>trackpad_poll\<close>\<close>

text \<open>
  Modelled from the spec: the body of
  \<^verbatim>\<open>int trackpad_poll(TrackpadFinger* fingers, int max_fingers)\<close> is missing (the
  header only declares it). The spec: "caller-driven retrieval into a caller-supplied
  fixed-capacity array; returns count of active touches. Truncation behavior when the
  native source has more touches than capacity is unspecified."

  \<open>active\<close> is the list of touches on the trackpad at the call, \<open>fingers\<close> the caller's
  array and \<open>max_fingers\<close> its capacity (nothing is written for a negative one). The
  result is the array after the call and the returned count. What is delivered when
  there are more touches than the capacity is left to the parameter \<open>overflow\<close>; at most
  \<open>max_fingers\<close> entries of it are written.
\<close>

definition trackpad_poll ::
  "(nat \<Rightarrow> TrackpadFinger list \<Rightarrow> TrackpadFinger list) \<Rightarrow> TrackpadFinger list \<Rightarrow>
   TrackpadFinger list \<Rightarrow> c_int \<Rightarrow> TrackpadFinger list \<times> c_int" where
  "trackpad_poll overflow active fingers max_fingers =
     (let capacity = nat (sint max_fingers);
          delivered = take capacity
            (if length active \<le> capacity then active else overflow capacity active)
      in (delivered @ drop (length delivered) fingers, word_of_nat (length active)))"

section \<open>Facts about the declarations\<close>

lemma functions_of_lovetrack_lib_h:
  "functions_of (items lovetrack_lib_h) =
     [lovetrack_lib_trackpad_start, lovetrack_lib_trackpad_poll,
      lovetrack_lib_trackpad_reset, lovetrack_lib_trackpad_stop]"
  by (simp add: lovetrack_lib_h_def)

lemma functions_of_trackpad_lib_h:
  "functions_of (items trackpad_lib_h) =
     [trackpad_lib_trackpad_start, trackpad_lib_trackpad_stop]"
  by (simp add: trackpad_lib_h_def)

lemmas fun_decl_defs =
  lovetrack_lib_trackpad_start_def lovetrack_lib_trackpad_poll_def
  lovetrack_lib_trackpad_reset_def lovetrack_lib_trackpad_stop_def
  trackpad_lib_trackpad_start_def trackpad_lib_trackpad_stop_def

lemma all_operations_eq:
  "all_operations =
     [(''lovetrack_lib_h'', lovetrack_lib_trackpad_start),
      (''lovetrack_lib_h'', lovetrack_lib_trackpad_poll),
      (''lovetrack_lib_h'', lovetrack_lib_trackpad_reset),
      (''lovetrack_lib_h'', lovetrack_lib_trackpad_stop),
      (''trackpad_lib_h'', trackpad_lib_trackpad_start),
      (''trackpad_lib_h'', trackpad_lib_trackpad_stop)]"
  by (simp add: all_operations_def operations_def functions_of_lovetrack_lib_h
        functions_of_trackpad_lib_h)
     (simp add: lovetrack_lib_h_def trackpad_lib_h_def)

lemma other_operations_eq:
  "other_operations =
     [(''lovetrack_lib_h'', lovetrack_lib_trackpad_poll),
      (''lovetrack_lib_h'', lovetrack_lib_trackpad_reset),
      (''lovetrack_lib_h'', lovetrack_lib_trackpad_stop),
      (''trackpad_lib_h'', trackpad_lib_trackpad_start),
      (''trackpad_lib_h'', trackpad_lib_trackpad_stop)]"
  unfolding other_operations_def all_operations_eq
  by (simp add: lovetrack_lib_h_def) (simp add: fun_decl_defs)

lemma operations_named_start:
  "operations_named ''trackpad_start'' =
     [(''lovetrack_lib_h'', lovetrack_lib_trackpad_start),
      (''trackpad_lib_h'', trackpad_lib_trackpad_start)]"
  unfolding operations_named_def all_operations_eq
  by (simp add: fun_decl_defs)

lemma fn_names:
  "fn_name lovetrack_lib_trackpad_start = ''trackpad_start''"
  "fn_name lovetrack_lib_trackpad_poll = ''trackpad_poll''"
  "fn_name lovetrack_lib_trackpad_reset = ''trackpad_reset''"
  "fn_name lovetrack_lib_trackpad_stop = ''trackpad_stop''"
  "fn_name trackpad_lib_trackpad_start = ''trackpad_start''"
  "fn_name trackpad_lib_trackpad_stop = ''trackpad_stop''"
  by (simp_all add: fun_decl_defs)

lemma functions_of_append: "functions_of (xs @ ys) = functions_of xs @ functions_of ys"
  by (induction xs rule: functions_of.induct) simp_all

text \<open>The guards differ, so a unit that includes both headers holds the items of both.\<close>

lemma include_lovetrack_then_trackpad:
  "include_headers [] [lovetrack_lib_h, trackpad_lib_h] =
     items lovetrack_lib_h @ items trackpad_lib_h"
  by (simp add: lovetrack_lib_h_def trackpad_lib_h_def)

lemma include_trackpad_then_lovetrack:
  "include_headers [] [trackpad_lib_h, lovetrack_lib_h] =
     items trackpad_lib_h @ items lovetrack_lib_h"
  by (simp add: lovetrack_lib_h_def trackpad_lib_h_def)

text \<open>A guard does its work: the same header twice contributes its items once.\<close>

lemma include_twice:
  "include_headers [] [lovetrack_lib_h, lovetrack_lib_h] = items lovetrack_lib_h"
  by simp

lemma start_incompatible:
  "\<not> compatible lovetrack_lib_trackpad_start trackpad_lib_trackpad_start"
  "\<not> compatible trackpad_lib_trackpad_start lovetrack_lib_trackpad_start"
  by (simp_all add: compatible_def fun_decl_defs)

lemma stop_compatible:
  "compatible lovetrack_lib_trackpad_stop trackpad_lib_trackpad_stop"
  "compatible trackpad_lib_trackpad_stop lovetrack_lib_trackpad_stop"
  by (simp_all add: compatible_def fun_decl_defs)

text \<open>
  By contrast with the callback's parameter, the array of \<^verbatim>\<open>trackpad_poll\<close> and
  \<^verbatim>\<open>trackpad_reset\<close> can be written through.
\<close>

lemma polling_fingers_modifiable:
  "map_option modifiable_lvalue (deref (C_ptr (C_named ''TrackpadFinger''))) = Some True"
  by simp

lemma sint_count: "n < 2 ^ 31 \<Longrightarrow> sint (word_of_nat n :: c_int) = int n"
proof -
  assume n: "n < 2 ^ 31"
  have "sint (word_of_nat n :: c_int) = (int n + 2 ^ 31) mod 2 ^ 32 - 2 ^ 31"
    using int_word_sint [where 'a = 32 and x = "int n"] by simp
  also from n have "(int n + 2 ^ 31) mod 2 ^ 32 = int n + 2 ^ 31"
    by simp
  finally show ?thesis by simp
qed

section \<open>The touch record\<close>

text \<open>
  C3. The two headers declare the same per-finger touch record: each declares exactly
  one struct, named \<^verbatim>\<open>TrackpadFinger\<close>, and in both its members are, in this order,
  \<^verbatim>\<open>id\<close> (int), \<^verbatim>\<open>x\<close>, \<^verbatim>\<open>y\<close>, \<^verbatim>\<open>vx\<close>, \<^verbatim>\<open>vy\<close>, \<^verbatim>\<open>angle\<close>,
  \<^verbatim>\<open>major_axis\<close>, \<^verbatim>\<open>minor_axis\<close>, \<^verbatim>\<open>size\<close> (float) and \<^verbatim>\<open>state\<close> (int).
\<close>

theorem TrackpadFinger_same_in_both_headers:
  "structs_of (items lovetrack_lib_h) = structs_of (items trackpad_lib_h)
   \<and> structs_of (items lovetrack_lib_h) =
       [(''TrackpadFinger'',
         [(''id'', C_int), (''x'', C_float), (''y'', C_float), (''vx'', C_float),
          (''vy'', C_float), (''angle'', C_float), (''major_axis'', C_float),
          (''minor_axis'', C_float), (''size'', C_float), (''state'', C_int)])]"
  by (simp add: lovetrack_lib_h_def trackpad_lib_h_def
        lovetrack_lib_TrackpadFinger_def trackpad_lib_TrackpadFinger_def)

section \<open>The two surfaces\<close>

text \<open>
  C4, as stated: each of the two surfaces is the struct declaration plus four
  functions. The callback header declares two functions, not four.
\<close>

theorem callback_header_has_not_four_functions:
  "\<not> (length (functions_of (items lovetrack_lib_h)) = 4
      \<and> length (functions_of (items trackpad_lib_h)) = 4)"
  by (simp add: functions_of_trackpad_lib_h)

text \<open>
  C4, amended. The polling surface is the struct declaration plus four functions
  (\<^verbatim>\<open>trackpad_start\<close>, \<^verbatim>\<open>trackpad_poll\<close>, \<^verbatim>\<open>trackpad_reset\<close>,
  \<^verbatim>\<open>trackpad_stop\<close>), five items in all; the callback surface is the struct
  declaration, the typedef \<^verbatim>\<open>TrackpadCallback\<close> and two functions
  (\<^verbatim>\<open>trackpad_start\<close>, \<^verbatim>\<open>trackpad_stop\<close>), four items in all.
\<close>

theorem surfaces_struct_plus_functions:
  "map fst (structs_of (items lovetrack_lib_h)) = [''TrackpadFinger'']
   \<and> typedefs_of (items lovetrack_lib_h) = []
   \<and> map fn_name (functions_of (items lovetrack_lib_h)) =
       [''trackpad_start'', ''trackpad_poll'', ''trackpad_reset'', ''trackpad_stop'']
   \<and> length (items lovetrack_lib_h) = 1 + 4
   \<and> map fst (structs_of (items trackpad_lib_h)) = [''TrackpadFinger'']
   \<and> map fst (typedefs_of (items trackpad_lib_h)) = [''TrackpadCallback'']
   \<and> map fn_name (functions_of (items trackpad_lib_h)) = [''trackpad_start'', ''trackpad_stop'']
   \<and> length (items trackpad_lib_h) = 1 + 1 + 2"
  by (simp add: lovetrack_lib_h_def trackpad_lib_h_def fun_decl_defs)

text \<open>
  C6. No function has a body: each of the six declared operations, four in the polling
  header and two in the callback header, is a declarator followed by \<^verbatim>\<open>;\<close>, and
  these six are all the functions the two headers hold.
\<close>

theorem no_function_has_body:
  "map (\<lambda>hd. (fst hd, fn_name (snd hd), fn_body (snd hd))) all_operations =
     [(''lovetrack_lib_h'', ''trackpad_start'', None),
      (''lovetrack_lib_h'', ''trackpad_poll'', None),
      (''lovetrack_lib_h'', ''trackpad_reset'', None),
      (''lovetrack_lib_h'', ''trackpad_stop'', None),
      (''trackpad_lib_h'', ''trackpad_start'', None),
      (''trackpad_lib_h'', ''trackpad_stop'', None)]
   \<and> map snd all_operations =
       functions_of (items lovetrack_lib_h) @ functions_of (items trackpad_lib_h)"
  by (simp add: all_operations_eq functions_of_lovetrack_lib_h functions_of_trackpad_lib_h)
     (simp add: fun_decl_defs)

section \<open>Error signals and return types\<close>

text \<open>
  C1. Of the six operations of the two surfaces, \<^verbatim>\<open>trackpad_start\<close> of the polling
  header is the only one with an error signal: it is declared \<^verbatim>\<open>int\<close> and documented
  to return 0 on success and -1 on failure. The modelled operation returns 0 when the
  service started and -1 when it did not, and no other value.
\<close>

theorem only_polling_start_has_error_signal:
  "filter (\<lambda>hd. has_error_signal (snd hd)) all_operations =
     [(''lovetrack_lib_h'', lovetrack_lib_trackpad_start)]
   \<and> fn_ret lovetrack_lib_trackpad_start = C_int
   \<and> fn_returns lovetrack_lib_trackpad_start = Status_code 0 (- 1)
   \<and> sint (trackpad_start True) = 0
   \<and> sint (trackpad_start False) = - 1
   \<and> {sint (trackpad_start started) | started. True} = {0, - 1}"
  apply (simp add: all_operations_eq)
  apply (simp add: fun_decl_defs trackpad_start_def)
  apply auto
  done

text \<open>
  C5, as stated: every operation other than the polling \<^verbatim>\<open>trackpad_start\<close> is declared
  \<^verbatim>\<open>void\<close>. The first of the other operations, \<^verbatim>\<open>trackpad_poll\<close>, is declared
  \<^verbatim>\<open>int\<close>.
\<close>

theorem trackpad_poll_not_void:
  "fst (other_operations ! 0) = ''lovetrack_lib_h''
   \<and> fn_name (snd (other_operations ! 0)) = ''trackpad_poll''
   \<and> fn_ret (snd (other_operations ! 0)) = C_int
   \<and> fn_ret (snd (other_operations ! 0)) \<noteq> C_void"
  by (simp add: other_operations_eq fun_decl_defs)

text \<open>
  C5, amended. Of the operations other than the polling \<^verbatim>\<open>trackpad_start\<close>,
  \<^verbatim>\<open>trackpad_poll\<close> is declared \<^verbatim>\<open>int\<close> and documented to return the number of
  fingers; the other four (\<^verbatim>\<open>trackpad_reset\<close> and \<^verbatim>\<open>trackpad_stop\<close> of the polling
  header, \<^verbatim>\<open>trackpad_start\<close> and \<^verbatim>\<open>trackpad_stop\<close> of the callback header) are
  declared \<^verbatim>\<open>void\<close>; none of the five has a documented error signal.
\<close>

theorem other_operations_return_types:
  "map (\<lambda>hd. (fst hd, fn_name (snd hd), fn_ret (snd hd))) other_operations =
     [(''lovetrack_lib_h'', ''trackpad_poll'', C_int),
      (''lovetrack_lib_h'', ''trackpad_reset'', C_void),
      (''lovetrack_lib_h'', ''trackpad_stop'', C_void),
      (''trackpad_lib_h'', ''trackpad_start'', C_void),
      (''trackpad_lib_h'', ''trackpad_stop'', C_void)]
   \<and> filter (\<lambda>hd. has_error_signal (snd hd)) other_operations = []
   \<and> fn_returns lovetrack_lib_trackpad_poll = Finger_count"
  by (simp add: other_operations_eq fun_decl_defs)

section \<open>Starting\<close>

text \<open>
  C7. There are two start operations, one per header. Exactly one of them, the polling
  one, returns a status code (declared \<^verbatim>\<open>int\<close>, 0 or -1, no parameter); the other
  takes one parameter, of type \<^verbatim>\<open>TrackpadCallback\<close>, a pointer to a function that is
  given the number of fingers and the finger array, and is declared \<^verbatim>\<open>void\<close>.
\<close>

theorem start_status_code_or_callback:
  "operations_named ''trackpad_start'' =
     [(''lovetrack_lib_h'', lovetrack_lib_trackpad_start),
      (''trackpad_lib_h'', trackpad_lib_trackpad_start)]
   \<and> filter (\<lambda>hd. has_error_signal (snd hd)) (operations_named ''trackpad_start'') =
       [(''lovetrack_lib_h'', lovetrack_lib_trackpad_start)]
   \<and> fn_ret lovetrack_lib_trackpad_start = C_int
   \<and> fn_returns lovetrack_lib_trackpad_start = Status_code 0 (- 1)
   \<and> fn_params lovetrack_lib_trackpad_start = []
   \<and> fn_ret trackpad_lib_trackpad_start = C_void
   \<and> fn_params trackpad_lib_trackpad_start = [(''callback'', C_named ''TrackpadCallback'')]
   \<and> map_of (typedefs_of (items trackpad_lib_h)) ''TrackpadCallback'' =
       Some (C_ptr (C_fun C_void
         [(''nFingers'', C_int), (''fingers'', C_ptr (C_const (C_named ''TrackpadFinger'')))]))"
  by (simp add: operations_named_start)
     (simp add: fun_decl_defs trackpad_lib_h_def TrackpadCallback_def)

text \<open>
  C10. The two start declarations are not interchangeable: the polling one lists no
  parameter and returns \<^verbatim>\<open>int\<close>, the callback one takes a \<^verbatim>\<open>TrackpadCallback\<close>
  and returns \<^verbatim>\<open>void\<close>, so the two are incompatible declarations of
  \<^verbatim>\<open>trackpad_start\<close>; a translation unit that includes both headers, in either order,
  holds this conflict (and no other between functions).
\<close>

theorem start_declarations_incompatible:
  "fn_params lovetrack_lib_trackpad_start = []
   \<and> fn_ret lovetrack_lib_trackpad_start = C_int
   \<and> fn_params trackpad_lib_trackpad_start = [(''callback'', C_named ''TrackpadCallback'')]
   \<and> fn_ret trackpad_lib_trackpad_start = C_void
   \<and> \<not> compatible lovetrack_lib_trackpad_start trackpad_lib_trackpad_start
   \<and> conflicts (functions_of (include_headers [] [lovetrack_lib_h, trackpad_lib_h])) =
       [(lovetrack_lib_trackpad_start, trackpad_lib_trackpad_start)]
   \<and> conflicts (functions_of (include_headers [] [trackpad_lib_h, lovetrack_lib_h])) =
       [(trackpad_lib_trackpad_start, lovetrack_lib_trackpad_start)]"
proof -
  have sig: "fn_params lovetrack_lib_trackpad_start = []"
    "fn_ret lovetrack_lib_trackpad_start = C_int"
    "fn_params trackpad_lib_trackpad_start = [(''callback'', C_named ''TrackpadCallback'')]"
    "fn_ret trackpad_lib_trackpad_start = C_void"
    by (simp_all add: fun_decl_defs)
  have fwd: "conflicts (functions_of (include_headers [] [lovetrack_lib_h, trackpad_lib_h])) =
       [(lovetrack_lib_trackpad_start, trackpad_lib_trackpad_start)]"
    unfolding include_lovetrack_then_trackpad
    by (simp add: functions_of_append functions_of_lovetrack_lib_h
          functions_of_trackpad_lib_h fn_names start_incompatible stop_compatible)
  have bwd: "conflicts (functions_of (include_headers [] [trackpad_lib_h, lovetrack_lib_h])) =
       [(trackpad_lib_trackpad_start, lovetrack_lib_trackpad_start)]"
    unfolding include_trackpad_then_lovetrack
    by (simp add: functions_of_append functions_of_lovetrack_lib_h
          functions_of_trackpad_lib_h fn_names start_incompatible stop_compatible)
  from sig fwd bwd start_incompatible(1) show ?thesis by blast
qed

section \<open>Buffers\<close>

text \<open>
  C8. In the polling header the operations that touch finger data are
  \<^verbatim>\<open>trackpad_poll\<close> and \<^verbatim>\<open>trackpad_reset\<close>; each takes the caller's array as a
  pointer to \<^verbatim>\<open>TrackpadFinger\<close> together with its capacity \<^verbatim>\<open>max_fingers\<close>; and no
  operation of the header hands out a buffer of the library's: none returns a pointer
  (the return types are \<^verbatim>\<open>int\<close>, \<^verbatim>\<open>int\<close>, \<^verbatim>\<open>void\<close>, \<^verbatim>\<open>void\<close>) and none has a
  pointer-to-pointer parameter.
\<close>

theorem polling_buffers_caller_provided:
  "filter touches_fingers (functions_of (items lovetrack_lib_h)) =
     [lovetrack_lib_trackpad_poll, lovetrack_lib_trackpad_reset]
   \<and> fn_params lovetrack_lib_trackpad_poll =
       [(''fingers'', C_ptr (C_named ''TrackpadFinger'')), (''max_fingers'', C_int)]
   \<and> fn_params lovetrack_lib_trackpad_reset =
       [(''fingers'', C_ptr (C_named ''TrackpadFinger'')), (''max_fingers'', C_int)]
   \<and> filter hands_out_buffer (functions_of (items lovetrack_lib_h)) = []
   \<and> map fn_ret (functions_of (items lovetrack_lib_h)) = [C_int, C_int, C_void, C_void]"
  by (simp add: functions_of_lovetrack_lib_h)
     (simp add: fun_decl_defs touches_fingers_def hands_out_buffer_def)

text \<open>
  C9. The callback registered with the callback variant's \<^verbatim>\<open>trackpad_start\<close> has
  type \<^verbatim>\<open>TrackpadCallback\<close>; its parameter \<^verbatim>\<open>fingers\<close> is a pointer to
  \<^verbatim>\<open>const TrackpadFinger\<close>, so what it points to is not a modifiable lvalue: the
  callback cannot assign to the delivered records through it. It is the callback's only
  pointer parameter, and no member of the record is itself a pointer.
\<close>

theorem callback_fingers_const:
  "map_of (typedefs_of (items trackpad_lib_h)) ''TrackpadCallback'' = Some TrackpadCallback
   \<and> fn_params trackpad_lib_trackpad_start = [(''callback'', C_named ''TrackpadCallback'')]
   \<and> map_of (callback_params TrackpadCallback) ''fingers'' =
       Some (C_ptr (C_const (C_named ''TrackpadFinger'')))
   \<and> map_option modifiable_lvalue (deref (C_ptr (C_const (C_named ''TrackpadFinger'')))) =
       Some False
   \<and> filter (\<lambda>p. is_pointer (snd p)) (callback_params TrackpadCallback) =
       [(''fingers'', C_ptr (C_const (C_named ''TrackpadFinger'')))]
   \<and> filter (\<lambda>m. is_pointer (snd m)) trackpad_lib_TrackpadFinger = []"
  by (simp add: trackpad_lib_h_def fun_decl_defs TrackpadCallback_def
        trackpad_lib_TrackpadFinger_def)

section \<open>Polling\<close>

text \<open>
  C2. \<^verbatim>\<open>trackpad_poll\<close> is declared with the caller's array \<^verbatim>\<open>fingers\<close> and its
  capacity \<^verbatim>\<open>max_fingers\<close>, returns \<^verbatim>\<open>int\<close>, and is documented to return the number
  of fingers on the trackpad. For the modelled operation, called with an array of
  \<open>max_fingers\<close> entries while fewer than \<open>2 ^ 31\<close> touches are active: the returned
  value is the number of active touches, the array keeps its length, and when the
  touches fit they are the first entries of the array, the rest of it unchanged.
\<close>

theorem trackpad_poll_fills_caller_array_and_counts:
  assumes cap: "length fingers = nat (sint max_fingers)"
    and cnt: "length active < 2 ^ 31"
  shows "fn_params lovetrack_lib_trackpad_poll =
           [(''fingers'', C_ptr (C_named ''TrackpadFinger'')), (''max_fingers'', C_int)]
    \<and> fn_ret lovetrack_lib_trackpad_poll = C_int
    \<and> fn_returns lovetrack_lib_trackpad_poll = Finger_count
    \<and> sint (snd (trackpad_poll overflow active fingers max_fingers)) = int (length active)
    \<and> length (fst (trackpad_poll overflow active fingers max_fingers)) = length fingers
    \<and> (length active \<le> length fingers \<longrightarrow>
         take (length active) (fst (trackpad_poll overflow active fingers max_fingers)) = active
         \<and> drop (length active) (fst (trackpad_poll overflow active fingers max_fingers)) =
             drop (length active) fingers)"
proof -
  have decl: "fn_params lovetrack_lib_trackpad_poll =
           [(''fingers'', C_ptr (C_named ''TrackpadFinger'')), (''max_fingers'', C_int)]"
    "fn_ret lovetrack_lib_trackpad_poll = C_int"
    "fn_returns lovetrack_lib_trackpad_poll = Finger_count"
    by (simp_all add: lovetrack_lib_trackpad_poll_def)
  have count: "sint (snd (trackpad_poll overflow active fingers max_fingers)) = int (length active)"
    using cnt by (simp add: trackpad_poll_def Let_def sint_count)
  have len: "length (fst (trackpad_poll overflow active fingers max_fingers)) = length fingers"
    using cap by (simp add: trackpad_poll_def Let_def)
  have fits: "take (length active) (fst (trackpad_poll overflow active fingers max_fingers)) = active
      \<and> drop (length active) (fst (trackpad_poll overflow active fingers max_fingers)) =
             drop (length active) fingers"
    if "length active \<le> length fingers"
    using that cap by (simp add: trackpad_poll_def Let_def)
  from decl count len fits show ?thesis by blast
qed

text \<open>
  Two touches polled into an array of three: the count is 2, the touches are the first
  two entries and the third entry is as it was.
\<close>

theorem trackpad_poll_fills_caller_array_and_counts_witness:
  "trackpad_poll (\<lambda>c ts. ts) [sample_finger 7, sample_finger 9]
       [sample_finger 0, sample_finger 0, sample_finger 0] 3 =
     ([sample_finger 7, sample_finger 9, sample_finger 0], 2)
   \<and> sint (snd (trackpad_poll (\<lambda>c ts. ts) [sample_finger 7, sample_finger 9]
       [sample_finger 0, sample_finger 0, sample_finger 0] 3)) = 2
   \<and> length (fst (trackpad_poll (\<lambda>c ts. ts) [sample_finger 7, sample_finger 9]
       [sample_finger 0, sample_finger 0, sample_finger 0] 3)) = 3"
  using trackpad_poll_fills_caller_array_and_counts
    [of "[sample_finger 0, sample_finger 0, sample_finger 0]" 3
        "[sample_finger 7, sample_finger 9]" "\<lambda>c ts. ts"]
  by (simp add: trackpad_poll_def Let_def)

end
